theory Spec2Isabelle
  imports Main "HOL-Library.Word"
begin

section \<open>The MMR REST-API client (src/example.py)\<close>

text \<open>
  The client is glue around the Python standard library and \<open>requests\<close>: it classifies
  the image source, builds two HTTP requests and maps HTTP failures to \<open>ValueError\<close>.
  The model keeps the control flow of the source line by line. Calls that leave the
  program (file system, network, URL and JSON libraries) are fields of an environment
  record; everything the client does that is visible from outside (reading a file,
  sending a request, printing) is appended to a trace.
\<close>

subsection \<open>Values\<close>

type_synonym bytes = "8 word list"

text \<open>Python values that \<open>json.loads\<close> returns and \<open>json.dumps\<close> accepts. A dict is an
  association list in insertion order; a float keeps its literal.\<close>

datatype py_value =
    PyNone
  | PyBool bool
  | PyInt int
  | PyFloat string
  | PyStr string
  | PyList "py_value list"
  | PyDict "(string \<times> py_value) list"

text \<open>Every exception of the source is \<open>ValueError\<close> with a message. The other
  constructors are the exceptions of the library calls the source leaves unguarded.\<close>

datatype error =
    ValueError string
  | JSONDecodeError string
  | UnicodeDecodeError string
  | TypeError string
  | KeyError string
  | OSError string
  | RequestException string

text \<open>\<open>requests.Response\<close>: the four attributes the source reads (\<open>text_body\<close> is \<open>r.text\<close>).\<close>

record Response =
  status_code :: int
  reason :: string
  text_body :: string
  content :: bytes

text \<open>The result of \<open>urlparse\<close>: the two attributes the source reads.\<close>

record ParseResult =
  scheme :: string
  netloc :: string

type_synonym headers = "(string \<times> string) list"
type_synonym form_data = "(string \<times> string) list"
type_synonym form_files = "(string \<times> string \<times> bytes) list"

text \<open>What the client does to the outside world, in order.\<close>

datatype event =
    FileRead string
  | HttpGet string headers nat
  | HttpPost string form_data form_files headers nat
  | Print string

subsection \<open>The environment\<close>

record env =
  os_path_isfile :: "string \<Rightarrow> bool"
  file_read :: "string \<Rightarrow> error + bytes"
  unquote :: "string \<Rightarrow> string"
  urlparse :: "string \<Rightarrow> error + ParseResult"
  requests_get :: "string \<Rightarrow> headers \<Rightarrow> nat \<Rightarrow> error + Response"
  requests_post :: "string \<Rightarrow> form_data \<Rightarrow> form_files \<Rightarrow> headers \<Rightarrow> nat \<Rightarrow> error + Response"
  json_loads :: "string \<Rightarrow> error + py_value"
  json_dumps :: "py_value \<Rightarrow> string"
  decode_utf8 :: "bytes \<Rightarrow> error + string"
  format_value :: "py_value \<Rightarrow> string"

text \<open>
  \<open>file_read\<close> is \<open>open(path, "rb").read()\<close>; \<open>requests_get\<close> and \<open>requests_post\<close>
  take the URL, the form data, the files, the headers and the timeout in seconds. Calls
  that touch the file system or the network, and the two decoders, may raise: they
  return \<open>Inl\<close> with the exception. So does \<open>urlparse\<close>, which raises \<open>ValueError\<close> on
  a string it rejects (an unmatched bracket in the host, for one). \<open>unquote\<close> returns a
  string for every string. \<open>format_value\<close> is what an f-string prints for a value that
  is not a string.
\<close>

subsection \<open>The client object and the program state\<close>

record MmrApiClient =
  server_url :: string

definition init :: "string \<Rightarrow> MmrApiClient" where
  "init url = \<lparr>server_url = url\<rparr>"

record pystate =
  this :: MmrApiClient
  trace :: "event list"

type_synonym 'a prog = "pystate \<Rightarrow> (error + 'a) \<times> pystate"

definition returns :: "'a \<Rightarrow> 'a prog" where
  "returns x s = (Inr x, s)"

definition raises :: "error \<Rightarrow> 'a prog" where
  "raises e s = (Inl e, s)"

definition lift :: "error + 'a \<Rightarrow> 'a prog" where
  "lift r s = (r, s)"

definition and_then :: "'a prog \<Rightarrow> ('a \<Rightarrow> 'b prog) \<Rightarrow> 'b prog" where
  "and_then m f s = (case m s of (Inl e, s') \<Rightarrow> (Inl e, s') | (Inr x, s') \<Rightarrow> f x s')"

definition emit :: "event \<Rightarrow> unit prog" where
  "emit ev s = (Inr (), s\<lparr>trace := trace s @ [ev]\<rparr>)"

definition get_self :: "MmrApiClient prog" where
  "get_self s = (Inr (this s), s)"

subsection \<open>Formatting integers\<close>

definition digit_char :: "nat \<Rightarrow> char" where
  "digit_char d = ''0123456789'' ! (d mod 10)"

function str_nat :: "nat \<Rightarrow> string" where
  "str_nat n = (if n < 10 then [digit_char n] else str_nat (n div 10) @ [digit_char (n mod 10)])"
  by pat_completeness auto
termination
  by (relation "measure id") auto

declare str_nat.simps [simp del]

definition str_int :: "int \<Rightarrow> string" where
  "str_int i = (if i < 0 then CHR ''-'' # str_nat (nat (- i)) else str_nat (nat i))"

subsection \<open>Arguments with defaults\<close>

datatype 'a arg = Omitted | Given 'a

definition dflt :: "'a \<Rightarrow> 'a arg \<Rightarrow> 'a" where
  "dflt d a = (case a of Omitted \<Rightarrow> d | Given v \<Rightarrow> v)"

definition py_optional :: "('a \<Rightarrow> py_value) \<Rightarrow> 'a option \<Rightarrow> py_value" where
  "py_optional f v = (case v of None \<Rightarrow> PyNone | Some x \<Rightarrow> f x)"

subsection \<open>\<open>is_valid_url\<close> (lines 12 to 17)\<close>

definition is_valid_url :: "env \<Rightarrow> string \<Rightarrow> error + bool" where
  "is_valid_url E input_str =
     (let decoded_url = unquote E input_str in
      case urlparse E decoded_url of
        Inl e \<Rightarrow> Inl e
      | Inr parsed_url \<Rightarrow> Inr (scheme parsed_url \<noteq> [] \<and> netloc parsed_url \<noteq> []))"

subsection \<open>\<open>MmrApiClient.info\<close> (lines 29 to 44)\<close>

definition info :: "env \<Rightarrow> string \<Rightarrow> py_value prog" where
  "info E api_key =
     and_then get_self (\<lambda>self.
     let hdrs = [(''apikey'', api_key)];
         url = server_url self @ ''info'' in
     and_then (emit (HttpGet url hdrs 60)) (\<lambda>_.
     and_then (lift (requests_get E url hdrs 60)) (\<lambda>r.
     if status_code r \<noteq> 200 then
       and_then (emit (Print (str_int (status_code r) @ '' '' @ reason r @ '' - '' @ text_body r))) (\<lambda>_.
       raises (ValueError (''Server returned error code '' @ str_int (status_code r))))
     else
       and_then (lift (decode_utf8 E (content r))) (\<lambda>decoded.
       and_then (lift (json_loads E decoded)) (\<lambda>info_result.
       returns info_result)))))"

subsection \<open>\<open>MmrApiClient.recognition\<close> (lines 46 to 107)\<close>

text \<open>Lines 63 to 76: the image source is classified and its bytes are fetched.
  The result is the value of \<open>file_buffer\<close>. An exception of \<open>is_valid_url\<close> at line 68
  leaves the function there.\<close>

definition load_image :: "env \<Rightarrow> string \<Rightarrow> bytes option prog" where
  "load_image E image_path =
     (if os_path_isfile E image_path then
        and_then (emit (FileRead image_path)) (\<lambda>_.
        and_then (lift (file_read E image_path)) (\<lambda>buf.
        returns (Some buf)))
      else
        and_then (lift (is_valid_url E image_path)) (\<lambda>valid.
        if valid then
          and_then (emit (HttpGet image_path [] 60)) (\<lambda>_.
          and_then (lift (requests_get E image_path [] 60)) (\<lambda>response.
          if status_code response = 200 then returns (Some (content response))
          else returns None))
        else raises (ValueError ''Input is neither a valid file path nor a URL.'')))"

text \<open>Lines 80 to 94: the parts of the POST.\<close>

definition recognition_files :: "string \<Rightarrow> bytes \<Rightarrow> form_files" where
  "recognition_files image_path file_buffer = [(''file'', (image_path, file_buffer))]"

definition recognition_headers :: "string \<Rightarrow> headers" where
  "recognition_headers api_key = [(''apiKey'', api_key)]"

definition recognition_request ::
  "bool option \<Rightarrow> bool option \<Rightarrow> string list \<Rightarrow> int option \<Rightarrow> py_value" where
  "recognition_request save_image save_plate_text tasks ocr_module_id =
     PyDict [(''saveImage'', py_optional PyBool save_image),
             (''savePlateText'', py_optional PyBool save_plate_text),
             (''tasks'', PyList (map PyStr tasks)),
             (''ocrModuleId'', py_optional PyInt ocr_module_id)]"

definition recognition_payload :: "env \<Rightarrow> py_value \<Rightarrow> form_data" where
  "recognition_payload E request = [(''request'', json_dumps E request)]"

text \<open>Python's \<open>in\<close> and \<open>[]\<close> with a string on the left, on a decoded JSON value.\<close>

fun is_prefix :: "string \<Rightarrow> string \<Rightarrow> bool" where
  "is_prefix [] ys = True"
| "is_prefix (x # xs) [] = False"
| "is_prefix (x # xs) (y # ys) = (x = y \<and> is_prefix xs ys)"

fun is_substring :: "string \<Rightarrow> string \<Rightarrow> bool" where
  "is_substring xs [] = (xs = [])"
| "is_substring xs (y # ys) = (is_prefix xs (y # ys) \<or> is_substring xs ys)"

definition py_contains :: "string \<Rightarrow> py_value \<Rightarrow> error + bool" where
  "py_contains key v =
     (case v of
        PyDict items \<Rightarrow> Inr (map_of items key \<noteq> None)
      | PyList xs \<Rightarrow> Inr (List.member xs (PyStr key))
      | PyStr s \<Rightarrow> Inr (is_substring key s)
      | _ \<Rightarrow> Inl (TypeError ''argument is not iterable''))"

definition py_getitem :: "py_value \<Rightarrow> string \<Rightarrow> error + py_value" where
  "py_getitem v key =
     (case v of
        PyDict items \<Rightarrow> (case map_of items key of None \<Rightarrow> Inl (KeyError key) | Some x \<Rightarrow> Inr x)
      | PyList xs \<Rightarrow> Inl (TypeError ''list indices must be integers or slices, not str'')
      | PyStr s \<Rightarrow> Inl (TypeError ''string indices must be integers'')
      | _ \<Rightarrow> Inl (TypeError ''object is not subscriptable''))"

definition py_format :: "env \<Rightarrow> py_value \<Rightarrow> string" where
  "py_format E v = (case v of PyStr s \<Rightarrow> s | _ \<Rightarrow> format_value E v)"

text \<open>Lines 99 to 103: the value of \<open>error_message\<close> when line 104 is reached.\<close>

definition error_message :: "env \<Rightarrow> Response \<Rightarrow> error + py_value" where
  "error_message E r =
     (if text_body r \<noteq> [] then
        (case json_loads E (text_body r) of
           Inl e \<Rightarrow> Inl e
         | Inr returned_json \<Rightarrow>
             (case py_contains ''errorMessage'' returned_json of
                Inl e \<Rightarrow> Inl e
              | Inr True \<Rightarrow> py_getitem returned_json ''errorMessage''
              | Inr False \<Rightarrow> Inr (PyStr (reason r))))
      else Inr (PyStr (reason r)))"

definition recognition ::
  "env \<Rightarrow> string \<Rightarrow> string \<Rightarrow> bool option arg \<Rightarrow> bool option arg \<Rightarrow> string list arg \<Rightarrow>
   int option arg \<Rightarrow> py_value prog" where
  "recognition E api_key image_path save_image_arg save_plate_text_arg tasks_arg ocr_module_id_arg =
     (let save_image = dflt (Some False) save_image_arg;
          save_plate_text = dflt (Some True) save_plate_text_arg;
          tasks = dflt [''DETECTION'', ''OCR'', ''MMR''] tasks_arg;
          ocr_module_id = dflt (Some 801) ocr_module_id_arg
      in
      and_then (load_image E image_path) (\<lambda>file_buffer.
      case file_buffer of
        None \<Rightarrow> raises (ValueError ''Failed to read image.'')
      | Some buf \<Rightarrow>
          and_then get_self (\<lambda>self.
          let files = recognition_files image_path buf;
              hdrs = recognition_headers api_key;
              request = recognition_request save_image save_plate_text tasks ocr_module_id;
              payload = recognition_payload E request;
              url = server_url self @ ''recognition'' in
          and_then (emit (HttpPost url payload files hdrs 60)) (\<lambda>_.
          and_then (lift (requests_post E url payload files hdrs 60)) (\<lambda>r.
          if status_code r \<noteq> 200 then
            and_then (lift (error_message E r)) (\<lambda>msg.
            raises (ValueError (''Server returned error code '' @ str_int (status_code r)
                                 @ '' : '' @ py_format E msg)))
          else
            and_then (lift (decode_utf8 E (content r))) (\<lambda>decoded.
            and_then (lift (json_loads E decoded)) (\<lambda>classification.
            returns classification)))))))"

section \<open>A sample environment\<close>

text \<open>
  One local file, one remote image and one server, used to run the model on concrete
  inputs. The URL parser knows the remote image, rejects \<open>http://[\<close> as \<open>urlparse\<close>
  does, and finds neither scheme nor host in any other string. \<open>py_json_dumps\<close> follows \<open>json.dumps\<close> with its default separators and
  \<open>ensure_ascii\<close>; the JSON decoder knows the two bodies the sample server sends and
  rejects every other text, and the sample server only sends ASCII.
\<close>

definition hex_digit :: "nat \<Rightarrow> char" where
  "hex_digit d = ''0123456789abcdef'' ! (d mod 16)"

definition json_escape :: "char \<Rightarrow> string" where
  "json_escape c =
     (if c = CHR 0x22 then [CHR 0x5C, CHR 0x22]
      else if c = CHR 0x5C then [CHR 0x5C, CHR 0x5C]
      else if c = CHR 0x0A then [CHR 0x5C, CHR ''n'']
      else if c = CHR 0x0D then [CHR 0x5C, CHR ''r'']
      else if c = CHR 0x09 then [CHR 0x5C, CHR ''t'']
      else if c = CHR 0x08 then [CHR 0x5C, CHR ''b'']
      else if c = CHR 0x0C then [CHR 0x5C, CHR ''f'']
      else if 32 \<le> (of_char c :: nat) \<and> (of_char c :: nat) < 127 then [c]
      else [CHR 0x5C, CHR ''u'', CHR ''0'', CHR ''0'',
            hex_digit ((of_char c :: nat) div 16), hex_digit (of_char c :: nat)])"

definition json_quote :: "string \<Rightarrow> string" where
  "json_quote s = CHR 0x22 # concat (map json_escape s) @ [CHR 0x22]"

fun join :: "string \<Rightarrow> string list \<Rightarrow> string" where
  "join sep [] = []"
| "join sep [x] = x"
| "join sep (x # y # ys) = x @ sep @ join sep (y # ys)"

fun py_json_dumps :: "py_value \<Rightarrow> string" where
  "py_json_dumps PyNone = ''null''"
| "py_json_dumps (PyBool b) = (if b then ''true'' else ''false'')"
| "py_json_dumps (PyInt i) = str_int i"
| "py_json_dumps (PyFloat s) = s"
| "py_json_dumps (PyStr s) = json_quote s"
| "py_json_dumps (PyList xs) = ''['' @ join '', '' (map py_json_dumps xs) @ '']''"
| "py_json_dumps (PyDict kvs) =
     ''{'' @ join '', '' (map (\<lambda>kv. json_quote (fst kv) @ '': '' @ py_json_dumps (snd kv)) kvs) @ ''}''"

definition sample_loads :: "string \<Rightarrow> error + py_value" where
  \<open>sample_loads t =
     (if t = ''{"errorMessage":"bad key"}'' then Inr (PyDict [(''errorMessage'', PyStr ''bad key'')])
      else if t = ''{"status":"ok"}'' then Inr (PyDict [(''status'', PyStr ''ok'')])
      else Inl (JSONDecodeError ''Expecting value: line 1 column 1 (char 0)''))\<close>

definition sample_unquote :: "string \<Rightarrow> string" where
  "sample_unquote u =
     (if u = ''http://example.com/my%20car.jpg'' then ''http://example.com/my car.jpg'' else u)"

definition sample_urlparse :: "string \<Rightarrow> error + ParseResult" where
  "sample_urlparse u =
     (if u = ''http://example.com/my car.jpg'' then Inr \<lparr>scheme = ''http'', netloc = ''example.com''\<rparr>
      else if u = ''http://['' then Inl (ValueError ''Invalid IPv6 URL'')
      else Inr \<lparr>scheme = [], netloc = []\<rparr>)"

definition ascii_decode :: "bytes \<Rightarrow> error + string" where
  "ascii_decode b =
     (if list_all (\<lambda>w. w < 128) b then Inr (map (\<lambda>w. char_of (unat w)) b)
      else Inl (UnicodeDecodeError ''invalid start byte''))"

definition sample_format :: "py_value \<Rightarrow> string" where
  "sample_format v =
     (case v of PyNone \<Rightarrow> ''None'' | PyBool b \<Rightarrow> (if b then ''True'' else ''False'')
      | PyInt i \<Rightarrow> str_int i | PyFloat s \<Rightarrow> s | PyStr s \<Rightarrow> s | _ \<Rightarrow> py_json_dumps v)"

definition sample_env :: "Response \<Rightarrow> Response \<Rightarrow> env" where
  "sample_env image_response server_response =
     \<lparr>os_path_isfile = (\<lambda>p. p = ''car.jpg''),
      file_read = (\<lambda>p. if p = ''car.jpg'' then Inr [0xFF, 0xD8, 0xFF, 0xE0]
                        else Inl (OSError ''No such file or directory'')),
      unquote = sample_unquote,
      urlparse = sample_urlparse,
      requests_get = (\<lambda>u h t. if u = ''https://trafficeye.ai/info'' then Inr server_response
                        else if u = ''http://example.com/my%20car.jpg'' then Inr image_response
                        else Inl (RequestException ''connection failed'')),
      requests_post = (\<lambda>u d f h t. if u = ''https://trafficeye.ai/recognition'' then Inr server_response
                        else Inl (RequestException ''connection failed'')),
      json_loads = sample_loads,
      json_dumps = py_json_dumps,
      decode_utf8 = ascii_decode,
      format_value = sample_format\<rparr>"

definition sample_state :: pystate where
  "sample_state = \<lparr>this = init ''https://trafficeye.ai/'', trace = []\<rparr>"

definition ok_response :: Response where
  \<open>ok_response = \<lparr>status_code = 200, reason = ''OK'', text_body = ''{"status":"ok"}'',
     content = map of_char ''{"status":"ok"}''\<rparr>\<close>

definition gif_response :: Response where
  "gif_response = \<lparr>status_code = 200, reason = ''OK'', text_body = ''GIF89a'',
     content = [0x47, 0x49, 0x46, 0x38, 0x39, 0x61]\<rparr>"

definition not_found_response :: Response where
  "not_found_response = \<lparr>status_code = 404, reason = ''Not Found'', text_body = [], content = []\<rparr>"

definition bad_key_response :: Response where
  \<open>bad_key_response = \<lparr>status_code = 401, reason = ''Unauthorized'',
     text_body = ''{"errorMessage":"bad key"}'', content = map of_char ''{"errorMessage":"bad key"}''\<rparr>\<close>

definition bad_gateway_response :: Response where
  "bad_gateway_response = \<lparr>status_code = 502, reason = ''Bad Gateway'',
     text_body = ''<html>502 Bad Gateway</html>'', content = map of_char ''<html>502 Bad Gateway</html>''\<rparr>"

definition unavailable_response :: Response where
  "unavailable_response = \<lparr>status_code = 503, reason = ''Service Unavailable'', text_body = [], content = []\<rparr>"

definition temporarily_unavailable_response :: Response where
  "temporarily_unavailable_response =
     \<lparr>status_code = 503, reason = ''Service Temporarily Unavailable'', text_body = [], content = []\<rparr>"

section \<open>Properties\<close>

subsection \<open>How a call unfolds\<close>

lemmas prog_defs = returns_def raises_def lift_def and_then_def emit_def get_self_def

lemma is_valid_url_parsed:
  "urlparse E (unquote E p) = Inr parsed_url \<Longrightarrow>
   is_valid_url E p = Inr (scheme parsed_url \<noteq> [] \<and> netloc parsed_url \<noteq> [])"
  by (simp add: is_valid_url_def Let_def)


lemma load_image_invalid:
  "\<not> os_path_isfile E p \<Longrightarrow> is_valid_url E p = Inr False \<Longrightarrow>
   load_image E p s = (Inl (ValueError ''Input is neither a valid file path nor a URL.''), s)"
  by (simp add: load_image_def prog_defs)

lemma load_image_rejected:
  "\<not> os_path_isfile E p \<Longrightarrow> is_valid_url E p = Inl e \<Longrightarrow>
   load_image E p s = (Inl e, s)"
  by (simp add: load_image_def prog_defs)

lemma load_image_file:
  "os_path_isfile E p \<Longrightarrow>
   load_image E p s =
     (case file_read E p of Inl e \<Rightarrow> Inl e | Inr buf \<Rightarrow> Inr (Some buf),
      s\<lparr>trace := trace s @ [FileRead p]\<rparr>)"
  by (simp add: load_image_def prog_defs split: sum.split)

lemma load_image_url:
  "\<not> os_path_isfile E p \<Longrightarrow> is_valid_url E p = Inr True \<Longrightarrow>
   load_image E p s =
     (case requests_get E p [] 60 of
        Inl e \<Rightarrow> Inl e
      | Inr response \<Rightarrow> Inr (if status_code response = 200 then Some (content response) else None),
      s\<lparr>trace := trace s @ [HttpGet p [] 60]\<rparr>)"
  by (simp add: load_image_def prog_defs split: sum.split)

lemma load_image_this: "this (snd (load_image E p s)) = this s"
  by (simp add: load_image_def prog_defs split: sum.split)

lemma recognition_load_raises:
  "load_image E p s = (Inl e, s1) \<Longrightarrow> recognition E k p si sp ts oc s = (Inl e, s1)"
  by (simp add: recognition_def Let_def prog_defs)

lemma recognition_no_buffer:
  "load_image E p s = (Inr None, s1) \<Longrightarrow>
   recognition E k p si sp ts oc s = (Inl (ValueError ''Failed to read image.''), s1)"
  by (simp add: recognition_def Let_def prog_defs)

lemma recognition_posts:
  assumes "load_image E p s = (Inr (Some buf), s1)"
  shows "snd (recognition E k p si sp ts oc s) =
     s1\<lparr>trace := trace s1 @
        [HttpPost (server_url (this s) @ ''recognition'')
           (recognition_payload E (recognition_request (dflt (Some False) si) (dflt (Some True) sp)
              (dflt [''DETECTION'', ''OCR'', ''MMR''] ts) (dflt (Some 801) oc)))
           (recognition_files p buf) (recognition_headers k) 60]\<rparr>"
proof -
  from load_image_this [of E p s] assms have "this s1 = this s" by simp
  with assms show ?thesis
    by (simp add: recognition_def Let_def prog_defs split: sum.split)
qed

lemma recognition_post_failure:
  assumes "load_image E p s = (Inr (Some buf), s1)"
    and "requests_post E (server_url (this s) @ ''recognition'')
      (recognition_payload E (recognition_request (dflt (Some False) si) (dflt (Some True) sp)
         (dflt [''DETECTION'', ''OCR'', ''MMR''] ts) (dflt (Some 801) oc)))
      (recognition_files p buf) (recognition_headers k) 60 = Inr r"
    and "status_code r \<noteq> 200"
  shows "fst (recognition E k p si sp ts oc s) =
     (case error_message E r of
        Inl e \<Rightarrow> Inl e
      | Inr msg \<Rightarrow> Inl (ValueError (''Server returned error code '' @ str_int (status_code r)
                                   @ '' : '' @ py_format E msg)))"
proof -
  from load_image_this [of E p s] assms(1) have "this s1 = this s" by simp
  with assms show ?thesis
    by (simp add: recognition_def Let_def prog_defs split: sum.split)
qed

lemma load_image_events:
  "snd (load_image E p s) = s \<or>
   snd (load_image E p s) = s\<lparr>trace := trace s @ [FileRead p]\<rparr> \<or>
   snd (load_image E p s) = s\<lparr>trace := trace s @ [HttpGet p [] 60]\<rparr>"
proof (cases "os_path_isfile E p")
  case True
  then show ?thesis by (simp add: load_image_file)
next
  case False
  show ?thesis
  proof (cases "is_valid_url E p")
    case (Inl e)
    with False show ?thesis by (simp add: load_image_rejected)
  next
    case (Inr valid)
    with False show ?thesis
      by (cases valid) (simp_all add: load_image_url load_image_invalid)
  qed
qed

lemma load_image_new_events:
  "\<exists>pre. trace (snd (load_image E p s)) = trace s @ pre \<and>
         (pre = [] \<or> pre = [FileRead p] \<or> pre = [HttpGet p [] 60])"
proof -
  from load_image_events [of E p s] consider
      (unchanged) "snd (load_image E p s) = s"
    | (read_file) "snd (load_image E p s) = s\<lparr>trace := trace s @ [FileRead p]\<rparr>"
    | (fetched) "snd (load_image E p s) = s\<lparr>trace := trace s @ [HttpGet p [] 60]\<rparr>"
    by blast
  then show ?thesis
  proof cases
    case unchanged
    then have "trace (snd (load_image E p s)) = trace s @ []" by simp
    then show ?thesis by blast
  next
    case read_file
    then have "trace (snd (load_image E p s)) = trace s @ [FileRead p]" by simp
    then show ?thesis by blast
  next
    case fetched
    then have "trace (snd (load_image E p s)) = trace s @ [HttpGet p [] 60]" by simp
    then show ?thesis by blast
  qed
qed

lemma recognition_trace_cases:
  "trace (snd (recognition E k p si sp ts oc s)) = trace (snd (load_image E p s)) \<or>
   (\<exists>buf. trace (snd (recognition E k p si sp ts oc s)) =
      trace (snd (load_image E p s)) @
        [HttpPost (server_url (this s) @ ''recognition'')
           (recognition_payload E (recognition_request (dflt (Some False) si) (dflt (Some True) sp)
              (dflt [''DETECTION'', ''OCR'', ''MMR''] ts) (dflt (Some 801) oc)))
           (recognition_files p buf) (recognition_headers k) 60])"
proof -
  obtain res s1 where load: "load_image E p s = (res, s1)"
    by (cases "load_image E p s")
  show ?thesis
  proof (cases res)
    case (Inl e)
    with load have "recognition E k p si sp ts oc s = (Inl e, s1)"
      by (simp add: recognition_load_raises)
    with load show ?thesis by simp
  next
    case (Inr file_buffer)
    show ?thesis
    proof (cases file_buffer)
      case None
      with Inr load have "recognition E k p si sp ts oc s =
          (Inl (ValueError ''Failed to read image.''), s1)"
        by (simp add: recognition_no_buffer)
      with load show ?thesis by simp
    next
      case (Some buf)
      with Inr load have l: "load_image E p s = (Inr (Some buf), s1)" by simp
      have "trace (snd (recognition E k p si sp ts oc s)) =
         trace (snd (load_image E p s)) @
           [HttpPost (server_url (this s) @ ''recognition'')
              (recognition_payload E (recognition_request (dflt (Some False) si) (dflt (Some True) sp)
                 (dflt [''DETECTION'', ''OCR'', ''MMR''] ts) (dflt (Some 801) oc)))
              (recognition_files p buf) (recognition_headers k) 60]"
        by (simp only: recognition_posts [OF l] l snd_conv) simp
      then show ?thesis by blast
    qed
  qed
qed

lemma recognition_posted_data:
  assumes "HttpPost url d f h t \<in>
             set (drop (length (trace s)) (trace (snd (recognition E k p si sp ts oc s))))"
  shows "d = recognition_payload E (recognition_request (dflt (Some False) si) (dflt (Some True) sp)
                 (dflt [''DETECTION'', ''OCR'', ''MMR''] ts) (dflt (Some 801) oc))"
proof -
  define pay where "pay = recognition_payload E (recognition_request (dflt (Some False) si)
      (dflt (Some True) sp) (dflt [''DETECTION'', ''OCR'', ''MMR''] ts) (dflt (Some 801) oc))"
  define target where "target = server_url (this s) @ ''recognition''"
  define tr where "tr = trace (snd (recognition E k p si sp ts oc s))"
  obtain pre where tr1: "trace (snd (load_image E p s)) = trace s @ pre"
    and pre: "pre = [] \<or> pre = [FileRead p] \<or> pre = [HttpGet p [] 60]"
    using load_image_new_events [of E p s] by blast
  from pre have nopost: "HttpPost url d f h t \<notin> set pre" by auto
  from recognition_trace_cases [of E k p si sp ts oc s]
  have "tr = trace s @ pre \<or>
     (\<exists>buf. tr = trace s @ pre @ [HttpPost target pay (recognition_files p buf) (recognition_headers k) 60])"
    unfolding tr_def pay_def target_def tr1 by simp
  then consider (a) "tr = trace s @ pre"
    | (b) buf where "tr = trace s @ pre @ [HttpPost target pay (recognition_files p buf) (recognition_headers k) 60]"
    by blast
  then have "d = pay"
  proof cases
    case a
    with assms nopost show ?thesis unfolding tr_def [symmetric] by simp
  next
    case b
    with assms nopost show ?thesis unfolding tr_def [symmetric] by simp
  qed
  then show ?thesis unfolding pay_def .
qed

lemma recognition_local_file_trace:
  assumes "os_path_isfile E p" and "file_read E p = Inr buf"
  shows "trace (snd (recognition E k p si sp ts oc s)) =
           trace s @
              [FileRead p,
               HttpPost (server_url (this s) @ ''recognition'')
                 (recognition_payload E (recognition_request (dflt (Some False) si)
                    (dflt (Some True) sp) (dflt [''DETECTION'', ''OCR'', ''MMR''] ts)
                    (dflt (Some 801) oc)))
                 [(''file'', (p, buf))] [(''apiKey'', k)] 60]"
proof -
  from assms have "load_image E p s = (Inr (Some buf), s\<lparr>trace := trace s @ [FileRead p]\<rparr>)"
    by (simp add: load_image_file)
  from recognition_posts [OF this] show ?thesis
    by (simp add: recognition_files_def recognition_headers_def)
qed

lemma sample_default_call_trace:
  \<open>trace (snd (recognition (sample_env ok_response ok_response) ''KEY'' ''car.jpg''
           Omitted Omitted Omitted Omitted sample_state)) =
     [FileRead ''car.jpg'',
      HttpPost ''https://trafficeye.ai/recognition''
        [(''request'', ''{"saveImage": false, "savePlateText": true, "tasks": ["DETECTION", "OCR", "MMR"], "ocrModuleId": 801}'')]
        [(''file'', (''car.jpg'', [0xFF, 0xD8, 0xFF, 0xE0]))] [(''apiKey'', ''KEY'')] 60]\<close>
proof -
  have dumps: \<open>py_json_dumps (recognition_request (Some False) (Some True)
         [''DETECTION'', ''OCR'', ''MMR''] (Some 801)) =
       ''{"saveImage": false, "savePlateText": true, "tasks": ["DETECTION", "OCR", "MMR"], "ocrModuleId": 801}''\<close>
    by code_simp
  have isfile: "os_path_isfile (sample_env ok_response ok_response) ''car.jpg''"
    by (simp add: sample_env_def)
  have rd: "file_read (sample_env ok_response ok_response) ''car.jpg'' = Inr [0xFF, 0xD8, 0xFF, 0xE0]"
    by (simp add: sample_env_def)
  have dm: "json_dumps (sample_env ok_response ok_response) = py_json_dumps"
    by (simp add: sample_env_def)
  have url: "server_url (this sample_state) @ ''recognition'' = ''https://trafficeye.ai/recognition''"
    by (simp add: sample_state_def init_def)
  have tr0: "trace sample_state = []" by (simp add: sample_state_def)
  show ?thesis
    by (simp only: recognition_local_file_trace [OF isfile rd] recognition_payload_def dm dflt_def
        arg.case dumps url tr0 append_Nil)
qed

subsection \<open>Classification of the image source\<close>




text \<open>
  C6. When the input names an existing local file and reading it returns the bytes
  \<open>buf\<close>, the call reads that file and then sends one POST whose multipart part
  \<open>file\<close> carries the input string as file name and exactly \<open>buf\<close> as content. These
  are the only two events of the call: no GET is issued for the image, whatever
  \<open>is_valid_url\<close> would say about the string.
\<close>

theorem recognition_local_file:
  assumes "os_path_isfile E image_path"
    and "file_read E image_path = Inr buf"
  shows "snd (recognition E api_key image_path si sp ts oc s) =
           s\<lparr>trace := trace s @
              [FileRead image_path,
               HttpPost (server_url (this s) @ ''recognition'')
                 (recognition_payload E (recognition_request (dflt (Some False) si)
                    (dflt (Some True) sp) (dflt [''DETECTION'', ''OCR'', ''MMR''] ts)
                    (dflt (Some 801) oc)))
                 [(''file'', (image_path, buf))] [(''apiKey'', api_key)] 60]\<rparr>"
proof -
  from assms have "load_image E image_path s =
      (Inr (Some buf), s\<lparr>trace := trace s @ [FileRead image_path]\<rparr>)"
    by (simp add: load_image_file)
  from recognition_posts [OF this] show ?thesis
    by (simp add: recognition_files_def recognition_headers_def)
qed

theorem recognition_local_file_witness:
  "os_path_isfile (sample_env ok_response ok_response) ''car.jpg'' \<and>
   file_read (sample_env ok_response ok_response) ''car.jpg'' = Inr [0xFF, 0xD8, 0xFF, 0xE0] \<and>
   snd (recognition (sample_env ok_response ok_response) ''KEY'' ''car.jpg''
          Omitted Omitted Omitted Omitted sample_state) =
     sample_state\<lparr>trace := trace sample_state @
        [FileRead ''car.jpg'',
         HttpPost (server_url (this sample_state) @ ''recognition'')
           (recognition_payload (sample_env ok_response ok_response)
              (recognition_request (dflt (Some False) Omitted) (dflt (Some True) Omitted)
                 (dflt [''DETECTION'', ''OCR'', ''MMR''] Omitted) (dflt (Some 801) Omitted)))
           [(''file'', (''car.jpg'', [0xFF, 0xD8, 0xFF, 0xE0]))] [(''apiKey'', ''KEY'')] 60]\<rparr>"
  using recognition_local_file [of "sample_env ok_response ok_response" "''car.jpg''"
      "[0xFF, 0xD8, 0xFF, 0xE0]" "''KEY''" Omitted Omitted Omitted Omitted sample_state]
  by (simp add: sample_env_def)

text \<open>
  C7. When the input is not an existing file, its decoded form parses to a URL with a
  scheme and a network location, and the GET for the image returns a status other than
  200, the call fails with the image-read error (the \<open>ValueError\<close> of line 78). The GET
  is the only event of the call: the POST is neither built nor sent.
\<close>

theorem recognition_remote_fetch_failed:
  assumes "\<not> os_path_isfile E image_path"
    and "urlparse E (unquote E image_path) = Inr parsed_url"
    and "scheme parsed_url \<noteq> [] \<and> netloc parsed_url \<noteq> []"
    and "requests_get E image_path [] 60 = Inr response"
    and "status_code response \<noteq> 200"
  shows "recognition E api_key image_path si sp ts oc s =
           (Inl (ValueError ''Failed to read image.''),
            s\<lparr>trace := trace s @ [HttpGet image_path [] 60]\<rparr>)"
proof -
  from is_valid_url_parsed [OF assms(2)] assms(3) have "is_valid_url E image_path = Inr True"
    by simp
  with assms(1,4,5) have "load_image E image_path s =
      (Inr None, s\<lparr>trace := trace s @ [HttpGet image_path [] 60]\<rparr>)"
    by (simp add: load_image_url)
  then show ?thesis by (rule recognition_no_buffer)
qed

theorem recognition_remote_fetch_failed_witness:
  "\<not> os_path_isfile (sample_env not_found_response ok_response) ''http://example.com/my%20car.jpg'' \<and>
   urlparse (sample_env not_found_response ok_response)
       (unquote (sample_env not_found_response ok_response) ''http://example.com/my%20car.jpg'') =
     Inr \<lparr>scheme = ''http'', netloc = ''example.com''\<rparr> \<and>
   (scheme \<lparr>scheme = ''http'', netloc = ''example.com''\<rparr> \<noteq> [] \<and>
    netloc \<lparr>scheme = ''http'', netloc = ''example.com''\<rparr> \<noteq> []) \<and>
   requests_get (sample_env not_found_response ok_response) ''http://example.com/my%20car.jpg'' [] 60
     = Inr not_found_response \<and>
   status_code not_found_response \<noteq> 200 \<and>
   recognition (sample_env not_found_response ok_response) ''KEY'' ''http://example.com/my%20car.jpg''
       Omitted Omitted Omitted Omitted sample_state =
     (Inl (ValueError ''Failed to read image.''),
      sample_state\<lparr>trace := trace sample_state @ [HttpGet ''http://example.com/my%20car.jpg'' [] 60]\<rparr>)"
  using recognition_remote_fetch_failed [of "sample_env not_found_response ok_response"
      "''http://example.com/my%20car.jpg''" "\<lparr>scheme = ''http'', netloc = ''example.com''\<rparr>"
      not_found_response "''KEY''" Omitted Omitted Omitted Omitted sample_state]
  by (simp add: sample_env_def sample_unquote_def sample_urlparse_def not_found_response_def)

text \<open>
  C10. For a remote image source the decoded string only decides the classification.
  The GET that fetches the image is issued for the input string as given. When that GET
  returns status 200 the POST follows, and the file name of its \<open>file\<close> part is the input
  string as given, with the body of the GET's response as content; when the GET raises
  or returns another status, the GET is the only event.
\<close>

theorem recognition_remote_uses_original_string:
  assumes "\<not> os_path_isfile E image_path"
    and "urlparse E (unquote E image_path) = Inr parsed_url"
    and "scheme parsed_url \<noteq> [] \<and> netloc parsed_url \<noteq> []"
  shows "trace (snd (recognition E api_key image_path si sp ts oc s)) =
           trace s @ HttpGet image_path [] 60 #
             (case requests_get E image_path [] 60 of
                Inl e \<Rightarrow> []
              | Inr response \<Rightarrow>
                  if status_code response = 200 then
                    [HttpPost (server_url (this s) @ ''recognition'')
                       (recognition_payload E (recognition_request (dflt (Some False) si)
                          (dflt (Some True) sp) (dflt [''DETECTION'', ''OCR'', ''MMR''] ts)
                          (dflt (Some 801) oc)))
                       [(''file'', (image_path, content response))] [(''apiKey'', api_key)] 60]
                  else [])"
proof -
  let ?s1 = "s\<lparr>trace := trace s @ [HttpGet image_path [] 60]\<rparr>"
  from is_valid_url_parsed [OF assms(2)] assms(3) have valid: "is_valid_url E image_path = Inr True"
    by simp
  note load = load_image_url [OF assms(1) valid, of s]
  show ?thesis
  proof (cases "requests_get E image_path [] 60")
    case (Inl e)
    with load have "load_image E image_path s = (Inl e, ?s1)" by simp
    then have "recognition E api_key image_path si sp ts oc s = (Inl e, ?s1)"
      by (rule recognition_load_raises)
    with Inl show ?thesis by simp
  next
    case (Inr response)
    show ?thesis
    proof (cases "status_code response = 200")
      case True
      with Inr load have "load_image E image_path s = (Inr (Some (content response)), ?s1)"
        by simp
      from recognition_posts [OF this, of api_key si sp ts oc] Inr True show ?thesis
        by (simp add: recognition_files_def recognition_headers_def)
    next
      case False
      with Inr load have "load_image E image_path s = (Inr None, ?s1)" by simp
      then have "recognition E api_key image_path si sp ts oc s =
          (Inl (ValueError ''Failed to read image.''), ?s1)"
        by (rule recognition_no_buffer)
      with Inr False show ?thesis by simp
    qed
  qed
qed

theorem recognition_remote_uses_original_string_witness:
  \<open>\<not> os_path_isfile (sample_env gif_response ok_response) ''http://example.com/my%20car.jpg'' \<and>
   urlparse (sample_env gif_response ok_response)
       (unquote (sample_env gif_response ok_response) ''http://example.com/my%20car.jpg'') =
     Inr \<lparr>scheme = ''http'', netloc = ''example.com''\<rparr> \<and>
   (scheme \<lparr>scheme = ''http'', netloc = ''example.com''\<rparr> \<noteq> [] \<and>
    netloc \<lparr>scheme = ''http'', netloc = ''example.com''\<rparr> \<noteq> []) \<and>
   unquote (sample_env gif_response ok_response) ''http://example.com/my%20car.jpg''
     = ''http://example.com/my car.jpg'' \<and>
   trace (snd (recognition (sample_env gif_response ok_response) ''KEY''
                 ''http://example.com/my%20car.jpg'' Omitted Omitted Omitted Omitted sample_state)) =
     [HttpGet ''http://example.com/my%20car.jpg'' [] 60,
      HttpPost ''https://trafficeye.ai/recognition''
        [(''request'', ''{"saveImage": false, "savePlateText": true, "tasks": ["DETECTION", "OCR", "MMR"], "ocrModuleId": 801}'')]
        [(''file'', (''http://example.com/my%20car.jpg'', [0x47, 0x49, 0x46, 0x38, 0x39, 0x61]))]
        [(''apiKey'', ''KEY'')] 60]\<close>
proof -
  have nofile: "\<not> os_path_isfile (sample_env gif_response ok_response) ''http://example.com/my%20car.jpg''"
    by (simp add: sample_env_def)
  have decoded: "unquote (sample_env gif_response ok_response) ''http://example.com/my%20car.jpg''
     = ''http://example.com/my car.jpg''"
    by (simp add: sample_env_def sample_unquote_def)
  have parsed: "urlparse (sample_env gif_response ok_response)
       (unquote (sample_env gif_response ok_response) ''http://example.com/my%20car.jpg'') =
     Inr \<lparr>scheme = ''http'', netloc = ''example.com''\<rparr>"
    by (simp add: sample_env_def sample_unquote_def sample_urlparse_def)
  have both: "scheme \<lparr>scheme = ''http'', netloc = ''example.com''\<rparr> \<noteq> [] \<and>
    netloc \<lparr>scheme = ''http'', netloc = ''example.com''\<rparr> \<noteq> []"
    by simp
  have get: "requests_get (sample_env gif_response ok_response) ''http://example.com/my%20car.jpg'' [] 60
      = Inr gif_response"
    by (simp add: sample_env_def)
  have ok: "status_code gif_response = 200" and body: "content gif_response = [0x47, 0x49, 0x46, 0x38, 0x39, 0x61]"
    by (simp_all add: gif_response_def)
  have dumps: \<open>py_json_dumps (recognition_request (Some False) (Some True)
         [''DETECTION'', ''OCR'', ''MMR''] (Some 801)) =
       ''{"saveImage": false, "savePlateText": true, "tasks": ["DETECTION", "OCR", "MMR"], "ocrModuleId": 801}''\<close>
    by code_simp
  have dm: "json_dumps (sample_env gif_response ok_response) = py_json_dumps"
    by (simp add: sample_env_def)
  have url: "server_url (this sample_state) @ ''recognition'' = ''https://trafficeye.ai/recognition''"
    by (simp add: sample_state_def init_def)
  have tr0: "trace sample_state = []" by (simp add: sample_state_def)
  have \<open>trace (snd (recognition (sample_env gif_response ok_response) ''KEY''
                 ''http://example.com/my%20car.jpg'' Omitted Omitted Omitted Omitted sample_state)) =
     [HttpGet ''http://example.com/my%20car.jpg'' [] 60,
      HttpPost ''https://trafficeye.ai/recognition''
        [(''request'', ''{"saveImage": false, "savePlateText": true, "tasks": ["DETECTION", "OCR", "MMR"], "ocrModuleId": 801}'')]
        [(''file'', (''http://example.com/my%20car.jpg'', [0x47, 0x49, 0x46, 0x38, 0x39, 0x61]))]
        [(''apiKey'', ''KEY'')] 60]\<close>
    by (simp only: recognition_remote_uses_original_string [OF nofile parsed both] get sum.case ok
        simp_thms if_True body recognition_payload_def dm dflt_def arg.case dumps url tr0
        append_Nil)
  with nofile parsed both decoded show ?thesis by blast
qed

subsection \<open>Error responses of the recognition POST\<close>

text \<open>
  The source raises \<open>ValueError\<close> with the text
  \<open>Server returned error code <status> : <error_message>\<close>. The detail message of the
  specification is the value of the variable \<open>error_message\<close> at line 104.
\<close>

lemma error_message_empty_body:
  "text_body r = [] \<Longrightarrow> error_message E r = Inr (PyStr (reason r))"
  by (simp add: error_message_def)

lemma error_message_undecodable_body:
  "text_body r \<noteq> [] \<Longrightarrow> json_loads E (text_body r) = Inl e \<Longrightarrow> error_message E r = Inl e"
  by (simp add: error_message_def)

lemma error_message_from_object:
  "text_body r \<noteq> [] \<Longrightarrow> json_loads E (text_body r) = Inr (PyDict items) \<Longrightarrow>
   map_of items ''errorMessage'' = Some v \<Longrightarrow> error_message E r = Inr v"
  by (simp add: error_message_def py_contains_def py_getitem_def)

text \<open>
  C3. When the recognition POST is answered with a status other than 200 and the body
  \<open>{"errorMessage":"bad key"}\<close>, which \<open>json.loads\<close> decodes to the object with that
  one member, the detail message is \<open>bad key\<close>: \<open>error_message\<close> is that string and the
  error raised is the \<open>ValueError\<close> whose text ends in it after the status code.
\<close>

theorem recognition_error_message_field:
  assumes "fst (load_image E image_path s) = Inr (Some buf)"
    and "requests_post E (server_url (this s) @ ''recognition'')
           (recognition_payload E (recognition_request (dflt (Some False) si)
              (dflt (Some True) sp) (dflt [''DETECTION'', ''OCR'', ''MMR''] ts)
              (dflt (Some 801) oc)))
           [(''file'', (image_path, buf))] [(''apiKey'', api_key)] 60 = Inr r"
    and "status_code r \<noteq> 200"
    and \<open>text_body r = ''{"errorMessage":"bad key"}''\<close>
    and \<open>json_loads E ''{"errorMessage":"bad key"}'' = Inr (PyDict [(''errorMessage'', PyStr ''bad key'')])\<close>
  shows "error_message E r = Inr (PyStr ''bad key'') \<and>
         fst (recognition E api_key image_path si sp ts oc s) =
           Inl (ValueError (''Server returned error code '' @ str_int (status_code r) @ '' : bad key''))"
proof -
  have msg: "error_message E r = Inr (PyStr ''bad key'')"
    using assms(4,5) by (simp add: error_message_def py_contains_def py_getitem_def)
  obtain s1 where load: "load_image E image_path s = (Inr (Some buf), s1)"
    using assms(1) by (cases "load_image E image_path s") simp
  have "fst (recognition E api_key image_path si sp ts oc s) =
      (case error_message E r of
         Inl e \<Rightarrow> Inl e
       | Inr msg \<Rightarrow> Inl (ValueError (''Server returned error code '' @ str_int (status_code r)
                                   @ '' : '' @ py_format E msg)))"
    using assms(2,3)
    by (intro recognition_post_failure [OF load])
       (simp_all add: recognition_files_def recognition_headers_def)
  with msg show ?thesis by (simp add: py_format_def)
qed

theorem recognition_error_message_field_witness:
  \<open>fst (load_image (sample_env ok_response bad_key_response) ''car.jpg'' sample_state)
     = Inr (Some [0xFF, 0xD8, 0xFF, 0xE0]) \<and>
   requests_post (sample_env ok_response bad_key_response)
      (server_url (this sample_state) @ ''recognition'')
      (recognition_payload (sample_env ok_response bad_key_response)
         (recognition_request (dflt (Some False) Omitted) (dflt (Some True) Omitted)
            (dflt [''DETECTION'', ''OCR'', ''MMR''] Omitted) (dflt (Some 801) Omitted)))
      [(''file'', (''car.jpg'', [0xFF, 0xD8, 0xFF, 0xE0]))] [(''apiKey'', ''KEY'')] 60
     = Inr bad_key_response \<and>
   status_code bad_key_response \<noteq> 200 \<and>
   text_body bad_key_response = ''{"errorMessage":"bad key"}'' \<and>
   json_loads (sample_env ok_response bad_key_response) ''{"errorMessage":"bad key"}''
     = Inr (PyDict [(''errorMessage'', PyStr ''bad key'')]) \<and>
   error_message (sample_env ok_response bad_key_response) bad_key_response = Inr (PyStr ''bad key'') \<and>
   fst (recognition (sample_env ok_response bad_key_response) ''KEY'' ''car.jpg''
          Omitted Omitted Omitted Omitted sample_state) =
     Inl (ValueError ''Server returned error code 401 : bad key'')\<close>
proof -
  have load: "fst (load_image (sample_env ok_response bad_key_response) ''car.jpg'' sample_state)
     = Inr (Some [0xFF, 0xD8, 0xFF, 0xE0])"
    by (simp add: load_image_file sample_env_def)
  have post: "requests_post (sample_env ok_response bad_key_response)
      (server_url (this sample_state) @ ''recognition'')
      (recognition_payload (sample_env ok_response bad_key_response)
         (recognition_request (dflt (Some False) Omitted) (dflt (Some True) Omitted)
            (dflt [''DETECTION'', ''OCR'', ''MMR''] Omitted) (dflt (Some 801) Omitted)))
      [(''file'', (''car.jpg'', [0xFF, 0xD8, 0xFF, 0xE0]))] [(''apiKey'', ''KEY'')] 60
     = Inr bad_key_response"
    by (simp add: sample_env_def sample_state_def init_def)
  have status: "status_code bad_key_response \<noteq> 200"
    by (simp add: bad_key_response_def)
  have body: \<open>text_body bad_key_response = ''{"errorMessage":"bad key"}''\<close>
    by (simp add: bad_key_response_def)
  have loads: \<open>json_loads (sample_env ok_response bad_key_response) ''{"errorMessage":"bad key"}''
     = Inr (PyDict [(''errorMessage'', PyStr ''bad key'')])\<close>
    by (simp add: sample_env_def sample_loads_def)
  have code: "str_int 401 = ''401''" by code_simp
  from recognition_error_message_field [OF load post status body loads] load post status body loads code
  show ?thesis by (simp add: bad_key_response_def)
qed

text \<open>
  C1. A response with a status other than 200 and an empty body yields the reason phrase
  as detail message (\<open>error_message_empty_body\<close>). A body that is not empty and not JSON
  does not: line 101 decodes it without a guard, so the decoder's exception leaves
  \<open>recognition\<close> in place of the server error (\<open>error_message_undecodable_body\<close>). Here
  the sample server answers 502 with an HTML page.
\<close>

theorem recognition_non_json_body_raises_decode_error:
  "fst (recognition (sample_env ok_response bad_gateway_response) ''KEY'' ''car.jpg''
          Omitted Omitted Omitted Omitted sample_state) =
     Inl (JSONDecodeError ''Expecting value: line 1 column 1 (char 0)'')"
proof -
  have load: "load_image (sample_env ok_response bad_gateway_response) ''car.jpg'' sample_state
     = (Inr (Some [0xFF, 0xD8, 0xFF, 0xE0]), sample_state\<lparr>trace := trace sample_state @ [FileRead ''car.jpg'']\<rparr>)"
    by (simp add: load_image_file sample_env_def)
  have msg: "error_message (sample_env ok_response bad_gateway_response) bad_gateway_response =
      Inl (JSONDecodeError ''Expecting value: line 1 column 1 (char 0)'')"
    by (rule error_message_undecodable_body)
       (simp_all add: bad_gateway_response_def sample_env_def sample_loads_def)
  have "fst (recognition (sample_env ok_response bad_gateway_response) ''KEY'' ''car.jpg''
          Omitted Omitted Omitted Omitted sample_state) =
      (case error_message (sample_env ok_response bad_gateway_response) bad_gateway_response of
         Inl e \<Rightarrow> Inl e
       | Inr msg \<Rightarrow> Inl (ValueError (''Server returned error code '' @ str_int (status_code bad_gateway_response)
                                   @ '' : '' @ py_format (sample_env ok_response bad_gateway_response) msg)))"
    by (rule recognition_post_failure [OF load])
       (simp_all add: sample_env_def sample_state_def init_def bad_gateway_response_def)
  with msg show ?thesis by simp
qed

subsection \<open>Error responses of the info GET\<close>

text \<open>
  C2. When the GET to \<open>info\<close> is answered with a status other than 200, the call prints
  the status code, the reason phrase and the body text, and fails with the
  \<open>ValueError\<close> of line 41, whose message holds the status code and nothing else: the
  reason phrase reaches standard output, not the error.
\<close>

theorem info_failure:
  assumes "requests_get E (server_url (this s) @ ''info'') [(''apikey'', api_key)] 60 = Inr r"
    and "status_code r \<noteq> 200"
  shows "info E api_key s =
           (Inl (ValueError (''Server returned error code '' @ str_int (status_code r))),
            s\<lparr>trace := trace s @
               [HttpGet (server_url (this s) @ ''info'') [(''apikey'', api_key)] 60,
                Print (str_int (status_code r) @ '' '' @ reason r @ '' - '' @ text_body r)]\<rparr>)"
  using assms by (simp add: info_def Let_def prog_defs)

theorem info_failure_witness:
  "requests_get (sample_env ok_response not_found_response) (server_url (this sample_state) @ ''info'')
      [(''apikey'', ''KEY'')] 60 = Inr not_found_response \<and>
   status_code not_found_response \<noteq> 200 \<and>
   info (sample_env ok_response not_found_response) ''KEY'' sample_state =
     (Inl (ValueError ''Server returned error code 404''),
      sample_state\<lparr>trace := trace sample_state @
         [HttpGet ''https://trafficeye.ai/info'' [(''apikey'', ''KEY'')] 60,
          Print ''404 Not Found - '']\<rparr>)"
proof -
  have get: "requests_get (sample_env ok_response not_found_response)
      (server_url (this sample_state) @ ''info'') [(''apikey'', ''KEY'')] 60 = Inr not_found_response"
    by (simp add: sample_env_def sample_state_def init_def)
  have status: "status_code not_found_response \<noteq> 200"
    by (simp add: not_found_response_def)
  have code: "str_int 404 = ''404''" by code_simp
  from info_failure [OF get status] get status code show ?thesis
    by (simp add: not_found_response_def sample_state_def init_def)
qed

text \<open>
  Two answers with the same status code and different reason phrases raise the same
  error, so the error does not carry the reason phrase.
\<close>

theorem info_error_omits_reason:
  "fst (info (sample_env ok_response unavailable_response) ''KEY'' sample_state) =
     Inl (ValueError ''Server returned error code 503'') \<and>
   fst (info (sample_env ok_response temporarily_unavailable_response) ''KEY'' sample_state) =
     Inl (ValueError ''Server returned error code 503'') \<and>
   reason unavailable_response \<noteq> reason temporarily_unavailable_response"
proof -
  have code: "str_int 503 = ''503''" by code_simp
  have a: "fst (info (sample_env ok_response unavailable_response) ''KEY'' sample_state) =
     Inl (ValueError ''Server returned error code 503'')"
    by (simp add: info_def Let_def prog_defs sample_env_def sample_state_def init_def
        unavailable_response_def code)
  have b: "fst (info (sample_env ok_response temporarily_unavailable_response) ''KEY'' sample_state) =
     Inl (ValueError ''Server returned error code 503'')"
    by (simp add: info_def Let_def prog_defs sample_env_def sample_state_def init_def
        temporarily_unavailable_response_def code)
  have c: "reason unavailable_response \<noteq> reason temporarily_unavailable_response"
    by (simp add: unavailable_response_def temporarily_unavailable_response_def)
  from a b c show ?thesis by simp
qed

subsection \<open>The \<open>request\<close> form field\<close>

text \<open>
  C4. Every POST that \<open>recognition\<close> sends carries one form field, \<open>request\<close>, whose
  value is \<open>json.dumps\<close> of a dict with exactly the keys \<open>saveImage\<close>, \<open>savePlateText\<close>,
  \<open>tasks\<close>, \<open>ocrModuleId\<close>, in this order; the value of an omitted argument is
  \<open>False\<close>, \<open>True\<close>, \<open>["DETECTION", "OCR", "MMR"]\<close> and \<open>801\<close> respectively.
\<close>

theorem recognition_request_field:
  assumes "HttpPost url d f h t \<in>
             set (drop (length (trace s)) (trace (snd (recognition E api_key image_path si sp ts oc s))))"
  shows "d = [(''request'', json_dumps E (PyDict
           [(''saveImage'', (case si of Omitted \<Rightarrow> PyBool False | Given v \<Rightarrow> py_optional PyBool v)),
            (''savePlateText'', (case sp of Omitted \<Rightarrow> PyBool True | Given v \<Rightarrow> py_optional PyBool v)),
            (''tasks'', (case ts of Omitted \<Rightarrow> PyList [PyStr ''DETECTION'', PyStr ''OCR'', PyStr ''MMR'']
                                   | Given v \<Rightarrow> PyList (map PyStr v))),
            (''ocrModuleId'', (case oc of Omitted \<Rightarrow> PyInt 801 | Given v \<Rightarrow> py_optional PyInt v))]))]"
proof -
  have a: "py_optional PyBool (dflt (Some False) si) =
      (case si of Omitted \<Rightarrow> PyBool False | Given v \<Rightarrow> py_optional PyBool v)"
    by (simp add: dflt_def py_optional_def split: arg.split)
  have b: "py_optional PyBool (dflt (Some True) sp) =
      (case sp of Omitted \<Rightarrow> PyBool True | Given v \<Rightarrow> py_optional PyBool v)"
    by (simp add: dflt_def py_optional_def split: arg.split)
  have c: "PyList (map PyStr (dflt [''DETECTION'', ''OCR'', ''MMR''] ts)) =
      (case ts of Omitted \<Rightarrow> PyList [PyStr ''DETECTION'', PyStr ''OCR'', PyStr ''MMR'']
                | Given v \<Rightarrow> PyList (map PyStr v))"
    by (simp add: dflt_def split: arg.split)
  have d: "py_optional PyInt (dflt (Some 801) oc) =
      (case oc of Omitted \<Rightarrow> PyInt 801 | Given v \<Rightarrow> py_optional PyInt v)"
    by (simp add: dflt_def py_optional_def split: arg.split)
  from recognition_posted_data [OF assms] show ?thesis
    by (simp only: recognition_payload_def recognition_request_def a b c d)
qed

theorem recognition_request_field_witness:
  \<open>HttpPost ''https://trafficeye.ai/recognition''
      [(''request'', ''{"saveImage": false, "savePlateText": true, "tasks": ["DETECTION", "OCR", "MMR"], "ocrModuleId": 801}'')]
      [(''file'', (''car.jpg'', [0xFF, 0xD8, 0xFF, 0xE0]))] [(''apiKey'', ''KEY'')] 60 \<in>
     set (drop (length (trace sample_state))
        (trace (snd (recognition (sample_env ok_response ok_response) ''KEY'' ''car.jpg''
           Omitted Omitted Omitted Omitted sample_state)))) \<and>
   [(''request'', ''{"saveImage": false, "savePlateText": true, "tasks": ["DETECTION", "OCR", "MMR"], "ocrModuleId": 801}'')] =
   [(''request'', json_dumps (sample_env ok_response ok_response) (PyDict
       [(''saveImage'', PyBool False), (''savePlateText'', PyBool True),
        (''tasks'', PyList [PyStr ''DETECTION'', PyStr ''OCR'', PyStr ''MMR'']),
        (''ocrModuleId'', PyInt 801)]))]\<close>
proof -
  have tr0: "length (trace sample_state) = 0" by (simp add: sample_state_def)
  have mem: \<open>HttpPost ''https://trafficeye.ai/recognition''
      [(''request'', ''{"saveImage": false, "savePlateText": true, "tasks": ["DETECTION", "OCR", "MMR"], "ocrModuleId": 801}'')]
      [(''file'', (''car.jpg'', [0xFF, 0xD8, 0xFF, 0xE0]))] [(''apiKey'', ''KEY'')] 60 \<in>
     set (drop (length (trace sample_state))
        (trace (snd (recognition (sample_env ok_response ok_response) ''KEY'' ''car.jpg''
           Omitted Omitted Omitted Omitted sample_state))))\<close>
    by (simp only: sample_default_call_trace tr0 drop_0 list.set insertI1 insert_iff simp_thms)
  from recognition_request_field [OF mem] have eq:
    \<open>[(''request'', ''{"saveImage": false, "savePlateText": true, "tasks": ["DETECTION", "OCR", "MMR"], "ocrModuleId": 801}'')] =
   [(''request'', json_dumps (sample_env ok_response ok_response) (PyDict
       [(''saveImage'', PyBool False), (''savePlateText'', PyBool True),
        (''tasks'', PyList [PyStr ''DETECTION'', PyStr ''OCR'', PyStr ''MMR'']),
        (''ocrModuleId'', PyInt 801)]))]\<close>
    by (simp only: arg.case)
  from mem eq show ?thesis by (rule conjI)
qed

text \<open>
  C8. The source does not check \<open>tasks\<close> or \<open>ocr_module_id\<close>. The \<open>tasks\<close> and
  \<open>ocrModuleId\<close> members of every request sent are the caller's values as given, or
  the defaults where the caller omitted them; they are a non-empty list and a positive
  integer when the caller's values are.
\<close>

theorem recognition_passes_callers_values:
  assumes "HttpPost url d f h t \<in>
             set (drop (length (trace s)) (trace (snd (recognition E api_key image_path si sp ts oc s))))"
  shows "\<exists>items. d = [(''request'', json_dumps E (PyDict items))] \<and>
           map_of items ''tasks'' = Some (PyList (map PyStr (dflt [''DETECTION'', ''OCR'', ''MMR''] ts))) \<and>
           map_of items ''ocrModuleId'' = Some (py_optional PyInt (dflt (Some 801) oc))"
proof -
  let ?items = "[(''saveImage'', py_optional PyBool (dflt (Some False) si)),
             (''savePlateText'', py_optional PyBool (dflt (Some True) sp)),
             (''tasks'', PyList (map PyStr (dflt [''DETECTION'', ''OCR'', ''MMR''] ts))),
             (''ocrModuleId'', py_optional PyInt (dflt (Some 801) oc))]"
  from recognition_posted_data [OF assms]
  have "d = [(''request'', json_dumps E (PyDict ?items))]"
    by (simp only: recognition_payload_def recognition_request_def)
  moreover have "map_of ?items ''tasks'' =
      Some (PyList (map PyStr (dflt [''DETECTION'', ''OCR'', ''MMR''] ts)))"
    by simp
  moreover have "map_of ?items ''ocrModuleId'' = Some (py_optional PyInt (dflt (Some 801) oc))"
    by simp
  ultimately show ?thesis by blast
qed

theorem recognition_passes_callers_values_witness:
  \<open>HttpPost ''https://trafficeye.ai/recognition''
      [(''request'', ''{"saveImage": false, "savePlateText": true, "tasks": ["DETECTION", "OCR", "MMR"], "ocrModuleId": 801}'')]
      [(''file'', (''car.jpg'', [0xFF, 0xD8, 0xFF, 0xE0]))] [(''apiKey'', ''KEY'')] 60 \<in>
     set (drop (length (trace sample_state))
        (trace (snd (recognition (sample_env ok_response ok_response) ''KEY'' ''car.jpg''
           Omitted Omitted Omitted Omitted sample_state)))) \<and>
   (\<exists>items.
      [(''request'', ''{"saveImage": false, "savePlateText": true, "tasks": ["DETECTION", "OCR", "MMR"], "ocrModuleId": 801}'')] =
      [(''request'', json_dumps (sample_env ok_response ok_response) (PyDict items))] \<and>
      map_of items ''tasks'' = Some (PyList [PyStr ''DETECTION'', PyStr ''OCR'', PyStr ''MMR'']) \<and>
      map_of items ''ocrModuleId'' = Some (PyInt 801))\<close>
proof -
  have tr0: "length (trace sample_state) = 0" by (simp add: sample_state_def)
  have mem: \<open>HttpPost ''https://trafficeye.ai/recognition''
      [(''request'', ''{"saveImage": false, "savePlateText": true, "tasks": ["DETECTION", "OCR", "MMR"], "ocrModuleId": 801}'')]
      [(''file'', (''car.jpg'', [0xFF, 0xD8, 0xFF, 0xE0]))] [(''apiKey'', ''KEY'')] 60 \<in>
     set (drop (length (trace sample_state))
        (trace (snd (recognition (sample_env ok_response ok_response) ''KEY'' ''car.jpg''
           Omitted Omitted Omitted Omitted sample_state))))\<close>
    by (simp only: sample_default_call_trace tr0 drop_0 list.set insertI1 insert_iff simp_thms)
  have t: "PyList (map PyStr (dflt [''DETECTION'', ''OCR'', ''MMR''] Omitted)) =
      PyList [PyStr ''DETECTION'', PyStr ''OCR'', PyStr ''MMR'']"
    by (simp add: dflt_def)
  have i: "py_optional PyInt (dflt (Some 801) Omitted) = PyInt 801"
    by (simp add: dflt_def py_optional_def)
  from recognition_passes_callers_values [OF mem] have
    \<open>\<exists>items.
      [(''request'', ''{"saveImage": false, "savePlateText": true, "tasks": ["DETECTION", "OCR", "MMR"], "ocrModuleId": 801}'')] =
      [(''request'', json_dumps (sample_env ok_response ok_response) (PyDict items))] \<and>
      map_of items ''tasks'' = Some (PyList [PyStr ''DETECTION'', PyStr ''OCR'', PyStr ''MMR'']) \<and>
      map_of items ''ocrModuleId'' = Some (PyInt 801)\<close>
    by (simp only: t i)
  with mem show ?thesis by (rule conjI)
qed

text \<open>
  Called with an empty task list and the module id \<open>-1\<close>, the client sends exactly
  these.
\<close>

theorem recognition_sends_unchecked_values:
  \<open>trace (snd (recognition (sample_env ok_response ok_response) ''KEY'' ''car.jpg''
           Omitted Omitted (Given []) (Given (Some (- 1))) sample_state)) =
     [FileRead ''car.jpg'',
      HttpPost ''https://trafficeye.ai/recognition''
        [(''request'', json_dumps (sample_env ok_response ok_response) (PyDict
            [(''saveImage'', PyBool False), (''savePlateText'', PyBool True),
             (''tasks'', PyList []), (''ocrModuleId'', PyInt (- 1))]))]
        [(''file'', (''car.jpg'', [0xFF, 0xD8, 0xFF, 0xE0]))] [(''apiKey'', ''KEY'')] 60] \<and>
   json_dumps (sample_env ok_response ok_response) (PyDict
            [(''saveImage'', PyBool False), (''savePlateText'', PyBool True),
             (''tasks'', PyList []), (''ocrModuleId'', PyInt (- 1))]) =
     ''{"saveImage": false, "savePlateText": true, "tasks": [], "ocrModuleId": -1}''\<close>
proof -
  have isfile: "os_path_isfile (sample_env ok_response ok_response) ''car.jpg''"
    by (simp add: sample_env_def)
  have rd: "file_read (sample_env ok_response ok_response) ''car.jpg'' = Inr [0xFF, 0xD8, 0xFF, 0xE0]"
    by (simp add: sample_env_def)
  have url: "server_url (this sample_state) @ ''recognition'' = ''https://trafficeye.ai/recognition''"
    by (simp add: sample_state_def init_def)
  have tr0: "trace sample_state = []" by (simp add: sample_state_def)
  have req: "recognition_request (Some False) (Some True) [] (Some (- 1)) =
      PyDict [(''saveImage'', PyBool False), (''savePlateText'', PyBool True),
             (''tasks'', PyList []), (''ocrModuleId'', PyInt (- 1))]"
    by (simp add: recognition_request_def py_optional_def)
  have a: "trace (snd (recognition (sample_env ok_response ok_response) ''KEY'' ''car.jpg''
           Omitted Omitted (Given []) (Given (Some (- 1))) sample_state)) =
     [FileRead ''car.jpg'',
      HttpPost ''https://trafficeye.ai/recognition''
        [(''request'', json_dumps (sample_env ok_response ok_response) (PyDict
            [(''saveImage'', PyBool False), (''savePlateText'', PyBool True),
             (''tasks'', PyList []), (''ocrModuleId'', PyInt (- 1))]))]
        [(''file'', (''car.jpg'', [0xFF, 0xD8, 0xFF, 0xE0]))] [(''apiKey'', ''KEY'')] 60]"
    by (simp only: recognition_local_file_trace [OF isfile rd] recognition_payload_def dflt_def
        arg.case req url tr0 append_Nil)
  have dm: "json_dumps (sample_env ok_response ok_response) = py_json_dumps"
    by (simp add: sample_env_def)
  have b: \<open>py_json_dumps (PyDict
            [(''saveImage'', PyBool False), (''savePlateText'', PyBool True),
             (''tasks'', PyList []), (''ocrModuleId'', PyInt (- 1))]) =
     ''{"saveImage": false, "savePlateText": true, "tasks": [], "ocrModuleId": -1}''\<close>
    by code_simp
  from a b show ?thesis by (simp only: dm simp_thms)
qed

subsection \<open>The client object\<close>

text \<open>
  C9. Neither \<open>info\<close> nor \<open>recognition\<close> changes the client object: \<open>server_url\<close> is
  the same after the call as before. A second \<open>info\<close> call with the same key, in the
  same environment, returns what the first returned.
\<close>

theorem client_not_mutated:
  "this (snd (info E api_key s)) = this s \<and>
   this (snd (recognition E api_key image_path si sp ts oc s)) = this s \<and>
   fst (info E api_key (snd (info E api_key s))) = fst (info E api_key s)"
proof -
  have info_this: "this (snd (info E api_key s')) = this s'" for s'
    by (simp add: info_def Let_def prog_defs split: sum.split)
  have info_fst: "fst (info E api_key s') = fst (info E api_key s'')" if "this s' = this s''" for s' s''
    using that by (simp add: info_def Let_def prog_defs split: sum.split)
  have rec_this: "this (snd (recognition E api_key image_path si sp ts oc s)) = this s"
  proof -
    obtain res s1 where load: "load_image E image_path s = (res, s1)"
      by (cases "load_image E image_path s")
    with load_image_this [of E image_path s] have s1: "this s1 = this s" by simp
    show ?thesis
    proof (cases res)
      case (Inl e)
      with load s1 show ?thesis by (simp add: recognition_load_raises)
    next
      case (Inr file_buffer)
      show ?thesis
      proof (cases file_buffer)
        case None
        with Inr load s1 show ?thesis by (simp add: recognition_no_buffer)
      next
        case (Some buf)
        with Inr load have "load_image E image_path s = (Inr (Some buf), s1)" by simp
        from recognition_posts [OF this] s1 show ?thesis by simp
      qed
    qed
  qed
  from info_this [of s] info_fst [OF info_this [of s]] rec_this show ?thesis by simp
qed

end
